theory Spec2Isabelle
  imports Complex_Main
begin

section \<open>JavaScript numbers\<close>

text \<open>
  Every numeric value of the program is a JavaScript \<^verbatim>\<open>number\<close>. A finite number is
  modelled by the real it denotes, so finite arithmetic is exact: rounding to 53 bits and
  overflow are outside the model, and the two zeros are one. The three non-finite values
  are kept, with the results IEEE 754 gives them, because the program divides by
  quantities that can be zero.
\<close>

datatype jsnum = Num real | NaN | PosInf | NegInf

fun js_neg :: "jsnum \<Rightarrow> jsnum" where
  "js_neg (Num a) = Num (- a)"
| "js_neg NaN = NaN"
| "js_neg PosInf = NegInf"
| "js_neg NegInf = PosInf"

fun js_add :: "jsnum \<Rightarrow> jsnum \<Rightarrow> jsnum" where
  "js_add (Num a) (Num b) = Num (a + b)"
| "js_add NaN _ = NaN"
| "js_add _ NaN = NaN"
| "js_add PosInf NegInf = NaN"
| "js_add NegInf PosInf = NaN"
| "js_add PosInf _ = PosInf"
| "js_add _ PosInf = PosInf"
| "js_add NegInf _ = NegInf"
| "js_add _ NegInf = NegInf"

definition js_sub :: "jsnum \<Rightarrow> jsnum \<Rightarrow> jsnum" where
  "js_sub x y = js_add x (js_neg y)"

fun js_mul :: "jsnum \<Rightarrow> jsnum \<Rightarrow> jsnum" where
  "js_mul (Num a) (Num b) = Num (a * b)"
| "js_mul NaN _ = NaN"
| "js_mul _ NaN = NaN"
| "js_mul (Num a) y = (if a = 0 then NaN else if 0 < a then y else js_neg y)"
| "js_mul x (Num b) = (if b = 0 then NaN else if 0 < b then x else js_neg x)"
| "js_mul PosInf y = y"
| "js_mul NegInf y = js_neg y"

text \<open>Division: a finite non-zero number over zero is an infinity, zero over zero is NaN.\<close>

fun js_div :: "jsnum \<Rightarrow> jsnum \<Rightarrow> jsnum" where
  "js_div (Num a) (Num b) =
     (if b = 0 then (if a = 0 then NaN else if 0 < a then PosInf else NegInf)
      else Num (a / b))"
| "js_div NaN _ = NaN"
| "js_div _ NaN = NaN"
| "js_div (Num a) _ = Num 0"
| "js_div PosInf (Num b) = (if 0 \<le> b then PosInf else NegInf)"
| "js_div NegInf (Num b) = (if 0 \<le> b then NegInf else PosInf)"
| "js_div _ _ = NaN"

text \<open>
  The operator \<^verbatim>\<open>%\<close> is the remainder of the division truncated towards zero: the
  result has the sign of the dividend.
\<close>

definition trunc :: "real \<Rightarrow> int" where
  "trunc x = (if 0 \<le> x then \<lfloor>x\<rfloor> else \<lceil>x\<rceil>)"

fun js_rem :: "jsnum \<Rightarrow> jsnum \<Rightarrow> jsnum" where
  "js_rem (Num a) (Num b) = (if b = 0 then NaN else Num (a - b * of_int (trunc (a / b))))"
| "js_rem NaN _ = NaN"
| "js_rem _ NaN = NaN"
| "js_rem (Num a) _ = Num a"
| "js_rem _ _ = NaN"

text \<open>Comparisons: every comparison with NaN is false.\<close>

fun js_lt :: "jsnum \<Rightarrow> jsnum \<Rightarrow> bool" where
  "js_lt (Num a) (Num b) = (a < b)"
| "js_lt NaN _ = False"
| "js_lt _ NaN = False"
| "js_lt _ NegInf = False"
| "js_lt PosInf _ = False"
| "js_lt _ _ = True"

definition js_gt :: "jsnum \<Rightarrow> jsnum \<Rightarrow> bool" where
  "js_gt x y = js_lt y x"

definition js_ge :: "jsnum \<Rightarrow> jsnum \<Rightarrow> bool" where
  "js_ge x y = (x \<noteq> NaN \<and> y \<noteq> NaN \<and> \<not> js_lt x y)"

text \<open>\<^verbatim>\<open>Math.max\<close> and \<^verbatim>\<open>Math.min\<close> of two arguments: NaN if either is NaN.\<close>

definition Math_max :: "jsnum \<Rightarrow> jsnum \<Rightarrow> jsnum" where
  "Math_max x y = (if x = NaN \<or> y = NaN then NaN else if js_lt x y then y else x)"

definition Math_min :: "jsnum \<Rightarrow> jsnum \<Rightarrow> jsnum" where
  "Math_min x y = (if x = NaN \<or> y = NaN then NaN else if js_lt y x then y else x)"

fun Math_ceil :: "jsnum \<Rightarrow> jsnum" where
  "Math_ceil (Num a) = Num (of_int \<lceil>a\<rceil>)"
| "Math_ceil x = x"

fun Math_floor :: "jsnum \<Rightarrow> jsnum" where
  "Math_floor (Num a) = Num (of_int \<lfloor>a\<rfloor>)"
| "Math_floor x = x"

text \<open>\<^verbatim>\<open>Math.round\<close> rounds to the nearest integer, a half towards plus infinity.\<close>

fun Math_round :: "jsnum \<Rightarrow> jsnum" where
  "Math_round (Num a) = Num (of_int \<lfloor>a + 1 / 2\<rfloor>)"
| "Math_round x = x"

text \<open>
  Conversion of a number to a string, as a template literal does it. The program only
  ever converts integral values (a result of \<^verbatim>\<open>Math.ceil\<close> or \<^verbatim>\<open>Math.round\<close>, or a
  project index), which JavaScript prints as their decimal digits. For a non-integral
  number the digits after the point depend on the binary representation, which this
  model does not have: only the integer part and the point are produced.
\<close>

definition digit_char :: "nat \<Rightarrow> char" where
  "digit_char d = ''0123456789'' ! d"

function nat_toString :: "nat \<Rightarrow> string" where
  "nat_toString n =
     (if n < 10 then [digit_char n] else nat_toString (n div 10) @ [digit_char (n mod 10)])"
  by pat_completeness auto
termination
  by (relation "measure id") auto

definition int_toString :: "int \<Rightarrow> string" where
  "int_toString i = (if i < 0 then ''-'' @ nat_toString (nat (- i)) else nat_toString (nat i))"

fun js_toString :: "jsnum \<Rightarrow> string" where
  "js_toString (Num a) =
     (if a = of_int \<lfloor>a\<rfloor> then int_toString \<lfloor>a\<rfloor> else int_toString (trunc a) @ ''.'')"
| "js_toString NaN = ''NaN''"
| "js_toString PosInf = ''Infinity''"
| "js_toString NegInf = ''-Infinity''"

text \<open>
  Reading an array at a number: the element when the number is an index of the array,
  \<^verbatim>\<open>undefined\<close> (here \<open>None\<close>) otherwise.
\<close>

fun js_index :: "'a list \<Rightarrow> jsnum \<Rightarrow> 'a option" where
  "js_index xs (Num a) =
     (if 0 \<le> a \<and> a = of_int \<lfloor>a\<rfloor> \<and> nat \<lfloor>a\<rfloor> < length xs then Some (xs ! nat \<lfloor>a\<rfloor>)
      else None)"
| "js_index xs _ = None"

text \<open>
  A value of type \<^verbatim>\<open>string | null\<close>; \<open>None\<close> stands for \<^verbatim>\<open>null\<close> and \<^verbatim>\<open>undefined\<close>.
  Such a value is truthy when it is a non-empty string.
\<close>

definition truthy :: "string option \<Rightarrow> bool" where
  "truthy s = (case s of None \<Rightarrow> False | Some t \<Rightarrow> t \<noteq> [])"

section \<open>Knob.tsx\<close>

text \<open>Convert value (0-100) to rotation angle (0 to 360 degrees).\<close>

definition valueToAngle :: "jsnum \<Rightarrow> jsnum" where
  "valueToAngle val = js_mul (js_div val (Num 100)) (Num 360)"

text \<open>Convert angle (0-360) to value (0-100), after normalising the angle.\<close>

definition angleToValue :: "jsnum \<Rightarrow> jsnum" where
  "angleToValue angle =
     (let normalized = js_rem angle (Num 360);
          normalized = (if js_lt normalized (Num 0) then js_add normalized (Num 360)
                        else normalized)
      in js_mul (js_div normalized (Num 360)) (Num 100))"

text \<open>
  The knob's wheel handler: \<^verbatim>\<open>delta = e.deltaY > 0 ? -2 : 2\<close>, and the value handed to
  \<^verbatim>\<open>onChange\<close> is \<^verbatim>\<open>Math.max(0, Math.min(100, value + delta))\<close>.
\<close>

definition Knob_handleWheel :: "jsnum \<Rightarrow> jsnum \<Rightarrow> jsnum" where
  "Knob_handleWheel deltaY val =
     (let delta = (if js_gt deltaY (Num 0) then Num (- 2) else Num 2)
      in Math_max (Num 0) (Math_min (Num 100) (js_add val delta)))"

section \<open>App.tsx\<close>

datatype view_mode = hero | breakdown

record ControlState =
  architectureEmphasis :: jsnum
  productDesignEmphasis :: jsnum
  softwareEmphasis :: jsnum
  viewMode :: view_mode
  showMetadata :: bool
  detailDepth :: jsnum
  timelineProgress :: jsnum

record Project =
  id' :: jsnum
  title :: string
  hasTimeline :: bool

text \<open>The mock project data: the fields the control board reads.\<close>

definition projects :: "Project list" where
  "projects =
     [\<lparr>id' = Num 0, title = ''About Me'', hasTimeline = False\<rparr>,
      \<lparr>id' = Num 1, title = ''Project 1'', hasTimeline = True\<rparr>,
      \<lparr>id' = Num 2, title = ''Project 2'', hasTimeline = True\<rparr>,
      \<lparr>id' = Num 3, title = ''Project 3'', hasTimeline = True\<rparr>,
      \<lparr>id' = Num 4, title = ''Project 4'', hasTimeline = True\<rparr>,
      \<lparr>id' = Num 5, title = ''Project 5'', hasTimeline = False\<rparr>,
      \<lparr>id' = Num 6, title = ''Project 6'', hasTimeline = True\<rparr>]"

text \<open>The state of the application: the two \<^verbatim>\<open>useState\<close> cells of \<^verbatim>\<open>App\<close>.\<close>

record AppState =
  activeProjectIndex :: jsnum
  controls :: ControlState

definition initialControls :: ControlState where
  "initialControls =
     \<lparr>architectureEmphasis = Num 33.33, productDesignEmphasis = Num 33.33,
      softwareEmphasis = Num 33.33, viewMode = hero, showMetadata = False,
      detailDepth = Num 100, timelineProgress = Num 100\<rparr>"

definition initialState :: AppState where
  "initialState = \<lparr>activeProjectIndex = Num 0, controls = initialControls\<rparr>"

text \<open>
  \<^verbatim>\<open>updateControl(key, value)\<close> replaces the field named by the key:
  \<^verbatim>\<open>setControls(prev => ({ ...prev, [key]: value }))\<close>. The value has the TypeScript type
  \<^verbatim>\<open>any\<close>; every call site passes a value of the type the field is declared with, so a
  call is a key together with a value of that type.
\<close>

datatype control_update =
    Set_architectureEmphasis jsnum
  | Set_productDesignEmphasis jsnum
  | Set_softwareEmphasis jsnum
  | Set_viewMode view_mode
  | Set_showMetadata bool
  | Set_detailDepth jsnum
  | Set_timelineProgress jsnum

fun updateControl :: "control_update \<Rightarrow> ControlState \<Rightarrow> ControlState" where
  "updateControl (Set_architectureEmphasis v) prev = prev\<lparr>architectureEmphasis := v\<rparr>"
| "updateControl (Set_productDesignEmphasis v) prev = prev\<lparr>productDesignEmphasis := v\<rparr>"
| "updateControl (Set_softwareEmphasis v) prev = prev\<lparr>softwareEmphasis := v\<rparr>"
| "updateControl (Set_viewMode v) prev = prev\<lparr>viewMode := v\<rparr>"
| "updateControl (Set_showMetadata v) prev = prev\<lparr>showMetadata := v\<rparr>"
| "updateControl (Set_detailDepth v) prev = prev\<lparr>detailDepth := v\<rparr>"
| "updateControl (Set_timelineProgress v) prev = prev\<lparr>timelineProgress := v\<rparr>"

text \<open>\<^verbatim>\<open>onProjectChange\<close> is the setter \<^verbatim>\<open>setActiveProjectIndex\<close>.\<close>

definition onProjectChange :: "jsnum \<Rightarrow> AppState \<Rightarrow> AppState" where
  "onProjectChange i st = st\<lparr>activeProjectIndex := i\<rparr>"

section \<open>DialNavigation.tsx\<close>

text \<open>
  The wheel handler of the dial. The result is the argument of the call of
  \<^verbatim>\<open>onProjectChange\<close>, and \<open>None\<close> when the handler makes no call.
\<close>

definition DialNavigation_handleWheel ::
  "bool \<Rightarrow> jsnum \<Rightarrow> jsnum \<Rightarrow> Project list \<Rightarrow> jsnum option" where
  "DialNavigation_handleWheel isHovering deltaY activeIndex ps =
     (if isHovering then
        (if js_gt deltaY (Num 0)
         then Some (js_rem (js_add activeIndex (Num 1)) (Num (real (length ps))))
         else if js_gt activeIndex (Num 0) then Some (js_sub activeIndex (Num 1))
         else None)
      else None)"

text \<open>A wheel event on the dial, seen from the application state.\<close>

definition wheel :: "bool \<Rightarrow> jsnum \<Rightarrow> Project list \<Rightarrow> AppState \<Rightarrow> AppState" where
  "wheel isHovering deltaY ps st =
     (case DialNavigation_handleWheel isHovering deltaY (activeProjectIndex st) ps of
        None \<Rightarrow> st
      | Some i \<Rightarrow> onProjectChange i st)"

definition getDialRotation :: "jsnum \<Rightarrow> jsnum \<Rightarrow> jsnum" where
  "getDialRotation activeIdx total' =
     (let angleStep = js_div (Num 180) (js_sub total' (Num 1));
          itemAngle = js_sub (Num 90) (js_mul activeIdx angleStep)
      in js_neg itemAngle)"

text \<open>
  The slider's interaction handler sets the two cells \<^verbatim>\<open>activeControl\<close> and
  \<^verbatim>\<open>controlValue\<close>; the result is the pair of their new values.
\<close>

definition stages :: "string list" where
  "stages = [''CONCEPT'', ''DEVELOP'', ''REFINE'', ''BUILD'', ''FINAL'']"

definition handleSliderInteraction ::
  "string \<Rightarrow> jsnum \<Rightarrow> bool \<Rightarrow> string option \<times> string option" where
  "handleSliderInteraction label val isInteracting =
     (if isInteracting then
        (Some label,
         if label = ''DETAIL'' then
           (let depth = Math_ceil (js_mul (js_div val (Num 100)) (Num 5))
            in Some (js_toString depth @ ''/5''))
         else
           (let stageIndex =
                  Math_floor (js_mul (js_div val (Num 100))
                                     (js_sub (Num (real (length stages))) (Num 1)))
            in js_index stages stageIndex))
      else (None, None))"

section \<open>ProjectContent.tsx\<close>

text \<open>Column widths from the emphasis knobs.\<close>

definition total_emphasis :: "ControlState \<Rightarrow> jsnum" where
  "total_emphasis c =
     js_add (js_add (architectureEmphasis c) (productDesignEmphasis c)) (softwareEmphasis c)"

definition archWidth :: "ControlState \<Rightarrow> jsnum" where
  "archWidth c = js_mul (js_div (architectureEmphasis c) (total_emphasis c)) (Num 100)"

definition prodWidth :: "ControlState \<Rightarrow> jsnum" where
  "prodWidth c = js_mul (js_div (productDesignEmphasis c) (total_emphasis c)) (Num 100)"

definition softWidth :: "ControlState \<Rightarrow> jsnum" where
  "softWidth c = js_mul (js_div (softwareEmphasis c) (total_emphasis c)) (Num 100)"

text \<open>Timeline stage labels of the content panel.\<close>

definition getTimelineStage :: "ControlState \<Rightarrow> string" where
  "getTimelineStage c =
     (let progress = timelineProgress c in
      if js_lt progress (Num 20) then ''CONCEPT''
      else if js_lt progress (Num 40) then ''DEVELOPMENT''
      else if js_lt progress (Num 60) then ''REFINEMENT''
      else if js_lt progress (Num 80) then ''BUILD''
      else ''FINAL'')"

section \<open>DisplayScreen.tsx\<close>

record DisciplineValues =
  architecture :: jsnum
  productDesign :: jsnum
  software :: jsnum

record DisplayScreenProps =
  currentProjectIndex :: jsnum
  currentProjectTitle :: string
  activeControl :: "string option"
  controlValue :: "string option"
  disciplineValues :: "DisciplineValues option"

record DisplayScreenState =
  idleMode :: bool
  idleCycle :: jsnum

record DisplayContent =
  line1 :: string
  line2 :: string

datatype js_error = TypeError

definition initialDisplay :: DisplayScreenState where
  "initialDisplay = \<lparr>idleMode = False, idleCycle = Num 0\<rparr>"

text \<open>
  The first effect runs when \<^verbatim>\<open>activeControl\<close> changes: an active control leaves idle
  mode; otherwise a timer is started, whose expiry enters idle mode.
\<close>

definition activeControlEffect ::
  "DisplayScreenProps \<Rightarrow> DisplayScreenState \<Rightarrow> DisplayScreenState" where
  "activeControlEffect props s =
     (if truthy (activeControl props) then s\<lparr>idleMode := False\<rparr> else s)"

definition idleTimeout :: "DisplayScreenState \<Rightarrow> DisplayScreenState" where
  "idleTimeout s = s\<lparr>idleMode := True\<rparr>"

text \<open>
  The interval of the second effect exists only in idle mode; each of its ticks runs
  \<^verbatim>\<open>setIdleCycle(prev => (prev + 1) % 3)\<close>.
\<close>

definition intervalTick :: "DisplayScreenState \<Rightarrow> DisplayScreenState" where
  "intervalTick s =
     (if idleMode s then s\<lparr>idleCycle := js_rem (js_add (idleCycle s) (Num 1)) (Num 3)\<rparr>
      else s)"

definition projectCode :: "jsnum \<Rightarrow> string" where
  "projectCode i = (if i = Num 0 then ''AM'' else ''0'' @ js_toString i)"

text \<open>
  Reading \<^verbatim>\<open>current.name\<close> when \<^verbatim>\<open>disciplines[idleCycle]\<close> is \<^verbatim>\<open>undefined\<close> throws a
  \<^verbatim>\<open>TypeError\<close>.
\<close>

definition getDisplayContent ::
  "DisplayScreenProps \<Rightarrow> DisplayScreenState \<Rightarrow> js_error + DisplayContent" where
  "getDisplayContent props s =
     (if truthy (activeControl props) \<and> truthy (controlValue props) then
        Inr \<lparr>line1 = the (activeControl props), line2 = the (controlValue props)\<rparr>
      else if \<not> idleMode s then
        Inr \<lparr>line1 = projectCode (currentProjectIndex props), line2 = []\<rparr>
      else
        (case disciplineValues props of
           Some dv \<Rightarrow>
             (let disciplines =
                    [(''ARCH'', architecture dv), (''PROD'', productDesign dv),
                     (''SOFT'', software dv)]
              in case js_index disciplines (idleCycle s) of
                   None \<Rightarrow> Inl TypeError
                 | Some current \<Rightarrow>
                     Inr \<lparr>line1 = fst current,
                          line2 = js_toString (Math_round (snd current)) @ ''%''\<rparr>)
         | None \<Rightarrow> Inr \<lparr>line1 = projectCode (currentProjectIndex props), line2 = []\<rparr>))"

text \<open>Props of the display with no control shown.\<close>

definition idleProps :: DisplayScreenProps where
  "idleProps =
     \<lparr>currentProjectIndex = Num 0, currentProjectTitle = ''About Me'', activeControl = None,
      controlValue = None,
      disciplineValues =
        Some \<lparr>architecture = Num 50, productDesign = Num 20.5, software = Num 7\<rparr>\<rparr>"

section \<open>VerticalSlider.tsx\<close>

text \<open>The fields of the track's bounding rectangle that the slider reads.\<close>

record Rect =
  bottom :: jsnum
  height :: jsnum

text \<open>
  A call a slider makes on its props: \<^verbatim>\<open>onInteractionChange(isInteracting)\<close> or
  \<^verbatim>\<open>onChange(value)\<close>. A handler is modelled by the list of the calls it makes, in order.
\<close>

datatype slider_call = OnInteractionChange bool | OnChange jsnum

text \<open>\<open>trackRef\<close> is \<open>None\<close> when \<^verbatim>\<open>trackRef.current\<close> is null.\<close>

definition updateValue :: "Rect option \<Rightarrow> jsnum \<Rightarrow> slider_call list" where
  "updateValue trackRef clientY =
     (case trackRef of
        None \<Rightarrow> []
      | Some rect \<Rightarrow>
          (let percentage =
                 Math_max (Num 0)
                   (Math_min (Num 100)
                      (js_mul (js_div (js_sub (bottom rect) clientY) (height rect)) (Num 100)))
           in [OnChange percentage]))"

text \<open>
  The handlers take the slider's cell \<^verbatim>\<open>isDragging\<close>; those that set it return its new
  value with their calls. The listeners for mouse moves and mouse up are installed only
  while \<^verbatim>\<open>isDragging\<close> holds.
\<close>

definition VerticalSlider_handleMouseDown ::
  "bool \<Rightarrow> Rect option \<Rightarrow> jsnum \<Rightarrow> bool \<Rightarrow> bool \<times> slider_call list" where
  "VerticalSlider_handleMouseDown disabled trackRef clientY isDragging =
     (if disabled then (isDragging, [])
      else (True, OnInteractionChange True # updateValue trackRef clientY))"

definition VerticalSlider_handleMouseMove ::
  "Rect option \<Rightarrow> jsnum \<Rightarrow> bool \<Rightarrow> slider_call list" where
  "VerticalSlider_handleMouseMove trackRef clientY isDragging =
     (if isDragging then updateValue trackRef clientY else [])"

definition VerticalSlider_handleMouseUp :: "bool \<Rightarrow> bool \<times> slider_call list" where
  "VerticalSlider_handleMouseUp isDragging =
     (if isDragging then (False, [OnInteractionChange False]) else (isDragging, []))"

section \<open>The timeline slider on the control board\<close>

text \<open>
  The state the timeline slider acts on: the state of \<^verbatim>\<open>App\<close>, the two cells
  \<^verbatim>\<open>activeControl\<close> and \<^verbatim>\<open>controlValue\<close> of \<^verbatim>\<open>DialNavigation\<close>, and the cell
  \<^verbatim>\<open>isDragging\<close> of the slider labelled TIME.
\<close>

record BoardState =
  app :: AppState
  activeControl_cell :: "string option"
  controlValue_cell :: "string option"
  timeDragging :: bool

definition initialBoard :: BoardState where
  "initialBoard =
     \<lparr>app = initialState, activeControl_cell = None, controlValue_cell = None,
      timeDragging = False\<rparr>"

text \<open>
  \<^verbatim>\<open>currentProject = projects[activeIndex]\<close> and
  \<^verbatim>\<open>timelineDisabled = !currentProject.hasTimeline\<close>; reading the field of an undefined
  project throws.
\<close>

definition timelineDisabled :: "Project list \<Rightarrow> BoardState \<Rightarrow> js_error + bool" where
  "timelineDisabled ps st =
     (case js_index ps (activeProjectIndex (app st)) of
        None \<Rightarrow> Inl TypeError
      | Some currentProject \<Rightarrow> Inr (\<not> hasTimeline currentProject))"

text \<open>The props \<^verbatim>\<open>DialNavigation\<close> renders the display with.\<close>

definition displayProps :: "Project list \<Rightarrow> BoardState \<Rightarrow> js_error + DisplayScreenProps" where
  "displayProps ps st =
     (case js_index ps (activeProjectIndex (app st)) of
        None \<Rightarrow> Inl TypeError
      | Some currentProject \<Rightarrow>
          Inr \<lparr>currentProjectIndex = activeProjectIndex (app st),
               currentProjectTitle = title currentProject,
               activeControl = activeControl_cell st,
               controlValue = controlValue_cell st,
               disciplineValues =
                 Some \<lparr>architecture = architectureEmphasis (controls (app st)),
                       productDesign = productDesignEmphasis (controls (app st)),
                       software = softwareEmphasis (controls (app st))\<rparr>\<rparr>)"

definition DialNavigation_display ::
  "Project list \<Rightarrow> BoardState \<Rightarrow> DisplayScreenState \<Rightarrow> js_error + DisplayContent" where
  "DialNavigation_display ps st s =
     (case displayProps ps st of Inl e \<Rightarrow> Inl e | Inr props \<Rightarrow> getDisplayContent props s)"

text \<open>
  The props of the slider labelled TIME:
  \<^verbatim>\<open>onChange = (val) => onControlChange('timelineProgress', val)\<close> and
  \<^verbatim>\<open>onInteractionChange = (isInteracting) =>
     handleSliderInteraction('STAGE', controls.timelineProgress, isInteracting)\<close>.
  The second reads \<^verbatim>\<open>controls\<close> of the render that created it, here \<open>rendered\<close>, while
  the store is updated from its previous state.
\<close>

definition timeSlider_call :: "ControlState \<Rightarrow> slider_call \<Rightarrow> BoardState \<Rightarrow> BoardState" where
  "timeSlider_call rendered call st =
     (case call of
        OnInteractionChange isInteracting \<Rightarrow>
          (let (a, v) = handleSliderInteraction ''STAGE'' (timelineProgress rendered) isInteracting
           in st\<lparr>activeControl_cell := a, controlValue_cell := v\<rparr>)
      | OnChange val \<Rightarrow>
          st\<lparr>app := (app st)\<lparr>controls :=
                 updateControl (Set_timelineProgress val) (controls (app st))\<rparr>\<rparr>)"

text \<open>The three mouse events of the timeline slider, each run against the last render.\<close>

definition timeSlider_mouseDown ::
  "Project list \<Rightarrow> Rect option \<Rightarrow> jsnum \<Rightarrow> BoardState \<Rightarrow> BoardState" where
  "timeSlider_mouseDown ps trackRef clientY st =
     (case timelineDisabled ps st of
        Inl e \<Rightarrow> st
      | Inr disabled \<Rightarrow>
          (let (drag, calls) =
                 VerticalSlider_handleMouseDown disabled trackRef clientY (timeDragging st)
           in fold (timeSlider_call (controls (app st))) calls (st\<lparr>timeDragging := drag\<rparr>)))"

definition timeSlider_mouseMove :: "Rect option \<Rightarrow> jsnum \<Rightarrow> BoardState \<Rightarrow> BoardState" where
  "timeSlider_mouseMove trackRef clientY st =
     fold (timeSlider_call (controls (app st)))
       (VerticalSlider_handleMouseMove trackRef clientY (timeDragging st)) st"

definition timeSlider_mouseUp :: "BoardState \<Rightarrow> BoardState" where
  "timeSlider_mouseUp st =
     (let (drag, calls) = VerticalSlider_handleMouseUp (timeDragging st)
      in fold (timeSlider_call (controls (app st))) calls (st\<lparr>timeDragging := drag\<rparr>))"

text \<open>A board showing project 1, which has a timeline, with the slider's track.\<close>

definition board1 :: BoardState where
  "board1 = initialBoard\<lparr>app := onProjectChange (Num 1) initialState\<rparr>"

definition track :: "Rect option" where
  "track = Some \<lparr>bottom = Num 300, height = Num 200\<rparr>"

text \<open>The same board after a click that puts the slider at 20, the mouse released.\<close>

definition board20 :: BoardState where
  "board20 = timeSlider_mouseUp (timeSlider_mouseDown projects track (Num 260) board1)"

section \<open>Arithmetic of the number model\<close>

lemma trunc_small: "0 \<le> x \<Longrightarrow> x < 1 \<Longrightarrow> trunc x = 0"
  by (simp add: trunc_def floor_eq_iff)

lemma js_rem_small: "0 \<le> a \<Longrightarrow> a < b \<Longrightarrow> js_rem (Num a) (Num b) = Num a"
  by (simp add: trunc_small)

lemma trunc_nat_div: "trunc (real m / real n) = int (m div n)"
  by (simp add: trunc_def floor_divide_of_nat_eq)

text \<open>On natural numbers \<^verbatim>\<open>%\<close> is the remainder of the integer division.\<close>

lemma js_rem_nat:
  assumes "0 < n"
  shows "js_rem (Num (real m)) (Num (real n)) = Num (real (m mod n))"
proof -
  have "real m = real (m mod n) + real n * real (m div n)"
    by (metis of_nat_add of_nat_mult mod_mult_div_eq)
  then have "real m - real n * real (m div n) = real (m mod n)"
    by simp
  with assms show ?thesis
    by (simp add: trunc_nat_div)
qed

section \<open>The knob\<close>

text \<open>
  C1, as the code has it. The angle of the value 100 is 360 degrees, which the
  normalisation of \<open>angleToValue\<close> takes to 0: converting 100 to an angle and back gives 0.
\<close>

theorem roundtrip_fails_at_100:
  "angleToValue (valueToAngle (Num 100)) = Num 0 \<and>
   angleToValue (valueToAngle (Num 100)) \<noteq> Num 100"
  by (simp add: angleToValue_def valueToAngle_def Let_def trunc_def)

text \<open>
  C1, amended: for every value \<open>v\<close> with \<open>0 \<le> v < 100\<close>, converting the knob value to an
  angle and back is the identity, \<open>angleToValue (valueToAngle v) = v\<close>.
\<close>

theorem angle_value_roundtrip:
  assumes "0 \<le> v" and "v < 100"
  shows "angleToValue (valueToAngle (Num v)) = Num v"
proof -
  have a: "valueToAngle (Num v) = Num (v / 100 * 360)"
    by (simp add: valueToAngle_def)
  have "js_rem (Num (v / 100 * 360)) (Num 360) = Num (v / 100 * 360)"
    using assms by (intro js_rem_small) auto
  with assms a show ?thesis
    by (simp add: angleToValue_def Let_def del: js_rem.simps)
qed

theorem angle_value_roundtrip_witness:
  "(0::real) \<le> 50 \<and> (50::real) < 100 \<and> angleToValue (valueToAngle (Num 50)) = Num 50"
  using angle_value_roundtrip [of 50] by simp



text \<open>Seventeen ticks down take a knob from its initial value 33.33 to 0.\<close>

lemma knob_reaches_zero: "((Knob_handleWheel (Num 1)) ^^ 17) (Num 33.33) = Num 0"
  by (simp add: eval_nat_numeral Knob_handleWheel_def Math_max_def Math_min_def js_gt_def
      Let_def)

section \<open>The control state\<close>

text \<open>
  C3, as the code has it: \<open>updateControl\<close> does not clamp. Setting \<open>detailDepth\<close> to 150
  stores 150, not the value clamped to \<open>[0,100]\<close>.
\<close>

theorem updateControl_stores_150:
  "detailDepth (updateControl (Set_detailDepth (Num 150)) initialControls) = Num 150 \<and>
   detailDepth (updateControl (Set_detailDepth (Num 150)) initialControls) \<noteq>
     Math_max (Num 0) (Math_min (Num 100) (Num 150))"
  by (simp add: Math_max_def Math_min_def)

lemma clamp_changes:
  "js_gt v (Num 100) \<or> js_lt v (Num 0) \<Longrightarrow> Math_max (Num 0) (Math_min (Num 100) v) \<noteq> v"
  by (cases v) (auto simp: Math_max_def Math_min_def js_gt_def)

text \<open>
  C3, amended: for every numeric control key and every input value, in range or out of
  range, the store's set operation stores the value exactly as it is given, and never
  rejects the call; an out-of-range value is therefore stored unclamped.
\<close>

theorem updateControl_stores_value:
  "architectureEmphasis (updateControl (Set_architectureEmphasis v) c) = v \<and>
   productDesignEmphasis (updateControl (Set_productDesignEmphasis v) c) = v \<and>
   softwareEmphasis (updateControl (Set_softwareEmphasis v) c) = v \<and>
   detailDepth (updateControl (Set_detailDepth v) c) = v \<and>
   timelineProgress (updateControl (Set_timelineProgress v) c) = v \<and>
   (js_gt v (Num 100) \<or> js_lt v (Num 0) \<longrightarrow>
      timelineProgress (updateControl (Set_timelineProgress v) c) \<noteq>
        Math_max (Num 0) (Math_min (Num 100) v))"
  using clamp_changes [of v] by auto

theorem updateControl_stores_value_witness:
  "js_lt (Num (- 5)) (Num 0) \<and>
   timelineProgress (updateControl (Set_timelineProgress (Num (- 5))) initialControls) =
     Num (- 5) \<and>
   timelineProgress (updateControl (Set_timelineProgress (Num (- 5))) initialControls) \<noteq>
     Math_max (Num 0) (Math_min (Num 100) (Num (- 5)))"
  using updateControl_stores_value [of "Num (- 5)" initialControls] by simp

section \<open>Column widths\<close>

text \<open>
  C2: when the three emphasis values are all zero, the code divides by the zero sum: each
  of the three widths is \<open>0 / 0 * 100\<close>, that is NaN, and not \<open>100 / 3\<close>.
\<close>

theorem widths_of_zero_emphasis:
  "archWidth (initialControls\<lparr>architectureEmphasis := Num 0, productDesignEmphasis := Num 0,
      softwareEmphasis := Num 0\<rparr>) = NaN \<and>
   prodWidth (initialControls\<lparr>architectureEmphasis := Num 0, productDesignEmphasis := Num 0,
      softwareEmphasis := Num 0\<rparr>) = NaN \<and>
   softWidth (initialControls\<lparr>architectureEmphasis := Num 0, productDesignEmphasis := Num 0,
      softwareEmphasis := Num 0\<rparr>) = NaN"
  by (simp add: archWidth_def prodWidth_def softWidth_def total_emphasis_def)

text \<open>
  C8: for every triple of positive emphasis values \<open>(a, p, s)\<close>, the three column widths
  are \<open>a / sum * 100\<close>, \<open>p / sum * 100\<close> and \<open>s / sum * 100\<close>, and they add up to exactly 100.
\<close>

theorem column_widths_sum:
  assumes "0 < a" and "0 < p" and "0 < s"
    and "architectureEmphasis c = Num a" and "productDesignEmphasis c = Num p"
    and "softwareEmphasis c = Num s"
  shows "archWidth c = Num (a / (a + p + s) * 100) \<and>
         prodWidth c = Num (p / (a + p + s) * 100) \<and>
         softWidth c = Num (s / (a + p + s) * 100) \<and>
         js_add (js_add (archWidth c) (prodWidth c)) (softWidth c) = Num 100"
proof -
  have nz: "a + p + s \<noteq> 0"
    using assms by simp
  have ws: "archWidth c = Num (a / (a + p + s) * 100)"
    "prodWidth c = Num (p / (a + p + s) * 100)"
    "softWidth c = Num (s / (a + p + s) * 100)"
    using assms nz
    by (simp_all add: archWidth_def prodWidth_def softWidth_def total_emphasis_def)
  define t where "t = a + p + s"
  have "a / t * 100 + p / t * 100 + s / t * 100 = (a + p + s) / t * 100"
    by (simp add: add_divide_distrib distrib_right)
  also have "\<dots> = 100"
    using nz by (simp add: t_def)
  finally have sum:
    "a / (a + p + s) * 100 + p / (a + p + s) * 100 + s / (a + p + s) * 100 = 100"
    by (simp only: t_def)
  have "js_add (js_add (archWidth c) (prodWidth c)) (softWidth c) =
        Num (a / (a + p + s) * 100 + p / (a + p + s) * 100 + s / (a + p + s) * 100)"
    by (simp only: ws js_add.simps)
  also have "\<dots> = Num 100"
    by (simp only: sum)
  finally show ?thesis
    using ws by blast
qed

theorem column_widths_sum_witness:
  "(0::real) < 33.33 \<and> architectureEmphasis initialControls = Num 33.33 \<and>
   productDesignEmphasis initialControls = Num 33.33 \<and>
   softwareEmphasis initialControls = Num 33.33 \<and>
   js_add (js_add (archWidth initialControls) (prodWidth initialControls))
     (softWidth initialControls) = Num 100"
  using column_widths_sum [of "33.33" "33.33" "33.33" initialControls]
  by (simp add: initialControls_def)

section \<open>Navigation\<close>

text \<open>
  C4: for every active project index \<open>i\<close> in \<open>[0, projectCount - 1]\<close>, a forward scroll over
  the dial (\<open>deltaY\<close> positive) sets the index to \<open>(i + 1) mod projectCount\<close>, and a backward
  scroll sets it to \<open>i - 1\<close> when \<open>i > 0\<close> and changes nothing when \<open>i = 0\<close>.
\<close>

theorem wheel_navigation:
  assumes "activeProjectIndex st = Num (real i)" and "i < length ps"
  shows "wheel True (Num d) ps st =
     (if 0 < d then st\<lparr>activeProjectIndex := Num (real ((i + 1) mod length ps))\<rparr>
      else if 0 < i then st\<lparr>activeProjectIndex := Num (real (i - 1))\<rparr>
      else st)"
proof -
  have n: "0 < length ps"
    using assms(2) by (cases ps) simp_all
  have "js_rem (Num (real i + 1)) (Num (real (length ps))) =
        Num (real ((i + 1) mod length ps))"
    using js_rem_nat [OF n, of "i + 1"] by (simp add: add.commute)
  with assms show ?thesis
    by (simp add: wheel_def DialNavigation_handleWheel_def js_gt_def js_sub_def
        onProjectChange_def of_nat_diff del: js_rem.simps)
qed

theorem wheel_navigation_witness:
  "activeProjectIndex (initialState\<lparr>activeProjectIndex := Num 6\<rparr>) = Num (real 6) \<and>
   6 < length projects \<and>
   wheel True (Num 1) projects (initialState\<lparr>activeProjectIndex := Num 6\<rparr>) = initialState \<and>
   wheel True (Num (- 1)) projects (initialState\<lparr>activeProjectIndex := Num 6\<rparr>) =
     initialState\<lparr>activeProjectIndex := Num 5\<rparr> \<and>
   wheel True (Num (- 1)) projects initialState = initialState"
  using wheel_navigation [of "initialState\<lparr>activeProjectIndex := Num 6\<rparr>" 6 projects 1]
    wheel_navigation [of "initialState\<lparr>activeProjectIndex := Num 6\<rparr>" 6 projects "- 1"]
    wheel_navigation [of initialState 0 projects "- 1"]
  by (simp add: projects_def initialState_def)

text \<open>
  The rotation of the dial for two items or more: \<open>- (90 - activeIdx * step)\<close> with
  \<open>step = 180 / (total - 1)\<close>.
\<close>

lemma getDialRotation_formula:
  "2 \<le> n \<Longrightarrow>
   getDialRotation (Num (real i)) (Num (real n)) = Num (- (90 - real i * (180 / (real n - 1))))"
  by (simp add: getDialRotation_def js_sub_def Let_def)

text \<open>
  C5: for a single item the step is \<open>180 / 0\<close>, which is infinite, and the rotation of the
  only item, \<open>- (90 - 0 * step)\<close>, is NaN and not 0: the code has no special case.
\<close>

theorem getDialRotation_single_item: "getDialRotation (Num 0) (Num 1) = NaN"
  by (simp add: getDialRotation_def js_sub_def Let_def)

section \<open>Slider readouts\<close>

text \<open>
  C6, as the code has it: at \<open>detailDepth = 0\<close> the readout is \<open>0/5\<close>, outside the range
  \<open>1..5\<close>.
\<close>

theorem detail_readout_at_0:
  "handleSliderInteraction ''DETAIL'' (Num 0) True = (Some ''DETAIL'', Some ''0/5'') \<and>
   Math_ceil (js_mul (js_div (Num 0) (Num 100)) (Num 5)) = Num 0"
  by (simp add: handleSliderInteraction_def int_toString_def digit_char_def)

text \<open>
  C6, amended: for every \<open>detailDepth\<close> in \<open>[0,100]\<close>, the detail-depth numeric readout
  equals \<open>ceil (detailDepth / 100 * 5)\<close> and lies in the range \<open>0..5\<close>; it lies in \<open>1..5\<close>
  exactly when \<open>detailDepth > 0\<close>.
\<close>

theorem detail_readout:
  assumes "0 \<le> v" and "v \<le> 100"
  shows "handleSliderInteraction ''DETAIL'' (Num v) True =
           (Some ''DETAIL'', Some (int_toString \<lceil>v / 100 * 5\<rceil> @ ''/5'')) \<and>
         0 \<le> \<lceil>v / 100 * 5\<rceil> \<and> \<lceil>v / 100 * 5\<rceil> \<le> 5 \<and> (1 \<le> \<lceil>v / 100 * 5\<rceil> \<longleftrightarrow> 0 < v)"
proof -
  have "handleSliderInteraction ''DETAIL'' (Num v) True =
          (Some ''DETAIL'', Some (int_toString \<lceil>v / 100 * 5\<rceil> @ ''/5''))"
    by (simp add: handleSliderInteraction_def)
  moreover have "0 \<le> \<lceil>v / 100 * 5\<rceil>"
    using assms by (simp add: le_ceiling_iff)
  moreover have "\<lceil>v / 100 * 5\<rceil> \<le> 5"
    using assms by (simp add: ceiling_le_iff)
  moreover have "1 \<le> \<lceil>v / 100 * 5\<rceil> \<longleftrightarrow> 0 < v"
    by (simp add: le_ceiling_iff)
  ultimately show ?thesis
    by blast
qed

theorem detail_readout_witness:
  "(0::real) \<le> 50 \<and> (50::real) \<le> 100 \<and>
   handleSliderInteraction ''DETAIL'' (Num 50) True = (Some ''DETAIL'', Some ''3/5'')"
  using detail_readout [of 50] by (simp add: int_toString_def digit_char_def)

lemma stage_bucket:
  assumes "0 \<le> v" and "v \<le> 100"
  shows "stages ! nat \<lfloor>v / 100 * 4\<rfloor> =
     (if v < 25 then ''CONCEPT'' else if v < 50 then ''DEVELOP''
      else if v < 75 then ''REFINE'' else if v < 100 then ''BUILD'' else ''FINAL'')"
proof -
  consider "v < 25" | "25 \<le> v" "v < 50" | "50 \<le> v" "v < 75" | "75 \<le> v" "v < 100"
    | "v = 100"
    using assms by linarith
  then show ?thesis
  proof cases
    case 1
    then have "\<lfloor>v / 100 * 4\<rfloor> = 0"
      using assms by (simp add: floor_eq_iff)
    with 1 show ?thesis by (simp add: stages_def)
  next
    case 2
    then have "\<lfloor>v / 100 * 4\<rfloor> = 1"
      by (simp add: floor_eq_iff)
    with 2 show ?thesis by (simp add: stages_def)
  next
    case 3
    then have "\<lfloor>v / 100 * 4\<rfloor> = 2"
      by (simp add: floor_eq_iff)
    with 3 show ?thesis by (simp add: stages_def)
  next
    case 4
    then have "\<lfloor>v / 100 * 4\<rfloor> = 3"
      by (simp add: floor_eq_iff)
    with 4 show ?thesis by (simp add: stages_def eval_nat_numeral)
  next
    case 5
    then show ?thesis by (simp add: stages_def eval_nat_numeral)
  qed
qed

lemma handleSliderInteraction_stage:
  assumes "0 \<le> v" and "v \<le> 100"
  shows "handleSliderInteraction ''STAGE'' (Num v) True =
           (Some ''STAGE'', Some (stages ! nat \<lfloor>v / 100 * 4\<rfloor>))"
proof -
  have "0 \<le> \<lfloor>v / 100 * 4\<rfloor>" and "\<lfloor>v / 100 * 4\<rfloor> \<le> 4"
    using assms by (simp_all add: le_floor_iff floor_le_iff)
  then have "nat \<lfloor>v / 100 * 4\<rfloor> < 5"
    by linarith
  then show ?thesis
    using assms by (simp add: handleSliderInteraction_def js_sub_def stages_def)
qed

text \<open>The display shows what the handler has set: the label and the stage.\<close>

lemma getDisplayContent_stage:
  assumes "0 \<le> v" and "v \<le> 100"
    and "activeControl props = fst (handleSliderInteraction ''STAGE'' (Num v) True)"
    and "controlValue props = snd (handleSliderInteraction ''STAGE'' (Num v) True)"
  shows "getDisplayContent props s =
           Inr \<lparr>line1 = ''STAGE'', line2 = stages ! nat \<lfloor>v / 100 * 4\<rfloor>\<rparr>"
proof -
  have "stages ! nat \<lfloor>v / 100 * 4\<rfloor> \<noteq> []"
    unfolding stage_bucket [OF assms(1,2)] by simp
  with assms(3,4) show ?thesis
    by (simp add: handleSliderInteraction_stage [OF assms(1,2)] getDisplayContent_def
        truthy_def)
qed

text \<open>
  An \<^verbatim>\<open>onChange\<close> call of the timeline slider, and so a mouse move, leaves the two cells
  of the display, the dragging cell and the project index as they are.
\<close>

lemma timeSlider_OnChange:
  "activeControl_cell (timeSlider_call r (OnChange x) st) = activeControl_cell st"
  "controlValue_cell (timeSlider_call r (OnChange x) st) = controlValue_cell st"
  "timeDragging (timeSlider_call r (OnChange x) st) = timeDragging st"
  "activeProjectIndex (app (timeSlider_call r (OnChange x) st)) = activeProjectIndex (app st)"
  by (simp_all add: timeSlider_call_def)

lemma fold_updateValue:
  "activeControl_cell (fold (timeSlider_call r) (updateValue tr y) st) = activeControl_cell st"
  "controlValue_cell (fold (timeSlider_call r) (updateValue tr y) st) = controlValue_cell st"
  "timeDragging (fold (timeSlider_call r) (updateValue tr y) st) = timeDragging st"
  "activeProjectIndex (app (fold (timeSlider_call r) (updateValue tr y) st)) =
     activeProjectIndex (app st)"
  by (simp_all add: updateValue_def Let_def timeSlider_OnChange split: option.splits)

lemma timeSlider_mouseMove_keeps:
  "activeControl_cell (timeSlider_mouseMove tr y st) = activeControl_cell st"
  "controlValue_cell (timeSlider_mouseMove tr y st) = controlValue_cell st"
  "timeDragging (timeSlider_mouseMove tr y st) = timeDragging st"
  "activeProjectIndex (app (timeSlider_mouseMove tr y st)) = activeProjectIndex (app st)"
  by (simp_all add: timeSlider_mouseMove_def VerticalSlider_handleMouseMove_def
      fold_updateValue)

lemma timeSlider_mouseMoves_keep:
  "activeControl_cell (fold (timeSlider_mouseMove tr) ys st) = activeControl_cell st \<and>
   controlValue_cell (fold (timeSlider_mouseMove tr) ys st) = controlValue_cell st \<and>
   timeDragging (fold (timeSlider_mouseMove tr) ys st) = timeDragging st \<and>
   activeProjectIndex (app (fold (timeSlider_mouseMove tr) ys st)) =
     activeProjectIndex (app st)"
  by (induction ys arbitrary: st) (simp_all add: timeSlider_mouseMove_keeps)

text \<open>
  A press on the enabled slider sets the cells from the value of \<open>timelineProgress\<close> in the
  state the press finds, before its own \<^verbatim>\<open>onChange\<close> call moves the slider.
\<close>

lemma timeSlider_mouseDown_cells:
  assumes "timelineDisabled ps st = Inr False"
  shows "activeControl_cell (timeSlider_mouseDown ps tr y st) =
           fst (handleSliderInteraction ''STAGE'' (timelineProgress (controls (app st))) True)"
    and "controlValue_cell (timeSlider_mouseDown ps tr y st) =
           snd (handleSliderInteraction ''STAGE'' (timelineProgress (controls (app st))) True)"
    and "timeDragging (timeSlider_mouseDown ps tr y st)"
    and "activeProjectIndex (app (timeSlider_mouseDown ps tr y st)) =
           activeProjectIndex (app st)"
  using assms
  by (simp_all add: timeSlider_mouseDown_def VerticalSlider_handleMouseDown_def
      timeSlider_call_def split_beta fold_updateValue)

lemma display_during_drag:
  assumes "timelineDisabled ps st = Inr False"
    and "timelineProgress (controls (app st)) = Num v" and "0 \<le> v" and "v \<le> 100"
  shows "DialNavigation_display ps
           (fold (timeSlider_mouseMove tr) ys (timeSlider_mouseDown ps tr y st)) s =
         Inr \<lparr>line1 = ''STAGE'', line2 = stages ! nat \<lfloor>v / 100 * 4\<rfloor>\<rparr>"
proof -
  let ?st' = "fold (timeSlider_mouseMove tr) ys (timeSlider_mouseDown ps tr y st)"
  from assms(1) obtain p where p: "js_index ps (activeProjectIndex (app st)) = Some p"
    by (auto simp: timelineDisabled_def split: option.splits)
  have idx: "activeProjectIndex (app ?st') = activeProjectIndex (app st)"
    by (simp add: timeSlider_mouseMoves_keep timeSlider_mouseDown_cells(4) [OF assms(1)])
  have a: "activeControl_cell ?st' = fst (handleSliderInteraction ''STAGE'' (Num v) True)"
    and c: "controlValue_cell ?st' = snd (handleSliderInteraction ''STAGE'' (Num v) True)"
    using timeSlider_mouseDown_cells(1,2) [OF assms(1)] assms(2)
    by (simp_all add: timeSlider_mouseMoves_keep)
  obtain props where props: "displayProps ps ?st' = Inr props"
    "activeControl props = fst (handleSliderInteraction ''STAGE'' (Num v) True)"
    "controlValue props = snd (handleSliderInteraction ''STAGE'' (Num v) True)"
    using p idx a c by (simp add: displayProps_def)
  have "getDisplayContent props s =
          Inr \<lparr>line1 = ''STAGE'', line2 = stages ! nat \<lfloor>v / 100 * 4\<rfloor>\<rparr>"
    using assms(3,4) props(2,3) by (rule getDisplayContent_stage)
  with props(1) show ?thesis
    by (simp add: DialNavigation_display_def)
qed

text \<open>
  C10, as the code has it: the second line is not computed from the value the slider is
  moved to. On project 1, with \<open>timelineProgress\<close> at its initial 100, a press that moves
  the slider to 20 leaves the display at FINAL, while \<open>stages[floor (20 / 100 * 4)]\<close> is
  CONCEPT.
\<close>

theorem stage_readout_after_press:
  "DialNavigation_display projects (timeSlider_mouseDown projects track (Num 260) board1)
     initialDisplay = Inr \<lparr>line1 = ''STAGE'', line2 = ''FINAL''\<rparr> \<and>
   timelineProgress (controls (app (timeSlider_mouseDown projects track (Num 260) board1))) =
     Num 20 \<and>
   [''CONCEPT'', ''DEVELOP'', ''REFINE'', ''BUILD'', ''FINAL''] ! nat \<lfloor>(20::real) / 100 * 4\<rfloor> =
     ''CONCEPT''"
  by (simp add: DialNavigation_display_def displayProps_def timeSlider_mouseDown_def
      timelineDisabled_def board1_def initialBoard_def initialState_def initialControls_def
      onProjectChange_def projects_def track_def VerticalSlider_handleMouseDown_def
      updateValue_def timeSlider_call_def handleSliderInteraction_def js_sub_def stages_def
      Math_max_def Math_min_def getDisplayContent_def truthy_def Let_def)

text \<open>
  C10, amended: during an interaction with the timeline slider (from the press, through
  every mouse move of the drag), the second line of the display is
  \<open>stages[floor (v / 100 * 4)]\<close> where \<open>v\<close> in \<open>[0,100]\<close> is the value \<open>timelineProgress\<close>
  held when the press began the interaction, not the value the press or the drag moves
  the slider to: buckets 25 wide, with abbreviated labels. The content panel's label has
  buckets 20 wide, with boundaries at 20, 40, 60 and 80, so the two differ for some
  values: for 20 the display shows CONCEPT and the panel DEVELOPMENT.
\<close>

theorem stage_readout:
  assumes "timelineDisabled ps st = Inr False"
    and "timelineProgress (controls (app st)) = Num v" and "0 \<le> v" and "v \<le> 100"
  shows "DialNavigation_display ps
           (fold (timeSlider_mouseMove tr) ys (timeSlider_mouseDown ps tr y st)) s =
           Inr \<lparr>line1 = ''STAGE'',
                line2 = [''CONCEPT'', ''DEVELOP'', ''REFINE'', ''BUILD'', ''FINAL'']
                          ! nat \<lfloor>v / 100 * 4\<rfloor>\<rparr> \<and>
         [''CONCEPT'', ''DEVELOP'', ''REFINE'', ''BUILD'', ''FINAL''] ! nat \<lfloor>v / 100 * 4\<rfloor> =
           (if v < 25 then ''CONCEPT'' else if v < 50 then ''DEVELOP''
            else if v < 75 then ''REFINE'' else if v < 100 then ''BUILD'' else ''FINAL'') \<and>
         getTimelineStage (controls (app st)) =
           (if v < 20 then ''CONCEPT'' else if v < 40 then ''DEVELOPMENT''
            else if v < 60 then ''REFINEMENT'' else if v < 80 then ''BUILD''
            else ''FINAL'') \<and>
         handleSliderInteraction ''STAGE'' (Num 20) True = (Some ''STAGE'', Some ''CONCEPT'') \<and>
         getTimelineStage (c\<lparr>timelineProgress := Num 20\<rparr>) = ''DEVELOPMENT''"
proof -
  have "DialNavigation_display ps
           (fold (timeSlider_mouseMove tr) ys (timeSlider_mouseDown ps tr y st)) s =
           Inr \<lparr>line1 = ''STAGE'', line2 = stages ! nat \<lfloor>v / 100 * 4\<rfloor>\<rparr>"
    using assms by (rule display_during_drag)
  then have "DialNavigation_display ps
           (fold (timeSlider_mouseMove tr) ys (timeSlider_mouseDown ps tr y st)) s =
           Inr \<lparr>line1 = ''STAGE'',
                line2 = [''CONCEPT'', ''DEVELOP'', ''REFINE'', ''BUILD'', ''FINAL'']
                          ! nat \<lfloor>v / 100 * 4\<rfloor>\<rparr>"
    by (simp only: stages_def)
  moreover have "[''CONCEPT'', ''DEVELOP'', ''REFINE'', ''BUILD'', ''FINAL''] ! nat \<lfloor>v / 100 * 4\<rfloor> =
           (if v < 25 then ''CONCEPT'' else if v < 50 then ''DEVELOP''
            else if v < 75 then ''REFINE'' else if v < 100 then ''BUILD'' else ''FINAL'')"
    using stage_bucket [OF assms(3,4)] by (simp only: stages_def)
  moreover have "getTimelineStage (controls (app st)) =
           (if v < 20 then ''CONCEPT'' else if v < 40 then ''DEVELOPMENT''
            else if v < 60 then ''REFINEMENT'' else if v < 80 then ''BUILD''
            else ''FINAL'')"
    using assms(2) by (simp add: getTimelineStage_def)
  moreover have "handleSliderInteraction ''STAGE'' (Num 20) True =
                   (Some ''STAGE'', Some ''CONCEPT'')"
    by (simp add: handleSliderInteraction_def js_sub_def stages_def)
  moreover have "getTimelineStage (c\<lparr>timelineProgress := Num 20\<rparr>) = ''DEVELOPMENT''"
    by (simp add: getTimelineStage_def)
  ultimately show ?thesis
    by blast
qed

text \<open>
  A run: on \<open>board20\<close> the slider stands at 20 after a first click. A second press, which
  moves the slider to 30, and a move to 35 leave the display at CONCEPT, the stage of 20,
  for which the panel shows DEVELOPMENT.
\<close>

theorem stage_readout_witness:
  "timelineDisabled projects board20 = Inr False \<and>
   timelineProgress (controls (app board20)) = Num 20 \<and> (0::real) \<le> 20 \<and> (20::real) \<le> 100 \<and>
   DialNavigation_display projects
     (fold (timeSlider_mouseMove track) [Num 230]
        (timeSlider_mouseDown projects track (Num 240) board20)) initialDisplay =
     Inr \<lparr>line1 = ''STAGE'', line2 = ''CONCEPT''\<rparr> \<and>
   getTimelineStage (controls (app board20)) = ''DEVELOPMENT''"
proof -
  have h1: "timelineDisabled projects board20 = Inr False"
    by (simp add: board20_def timeSlider_mouseUp_def timeSlider_mouseDown_def
        timelineDisabled_def board1_def initialBoard_def initialState_def onProjectChange_def
        projects_def track_def VerticalSlider_handleMouseDown_def
        VerticalSlider_handleMouseUp_def updateValue_def timeSlider_call_def Let_def
        split_beta)
  have h2: "timelineProgress (controls (app board20)) = Num 20"
    by (simp add: board20_def timeSlider_mouseUp_def timeSlider_mouseDown_def
        timelineDisabled_def board1_def initialBoard_def initialState_def onProjectChange_def
        projects_def track_def VerticalSlider_handleMouseDown_def
        VerticalSlider_handleMouseUp_def updateValue_def timeSlider_call_def Let_def
        split_beta js_sub_def Math_max_def Math_min_def)
  show ?thesis
    using stage_readout [OF h1 h2, of track "[Num 230]" "Num 240" initialDisplay
        initialControls] h1 h2
    by simp
qed

section \<open>The display in idle mode\<close>

lemma intervalTick_idle:
  "idleMode s \<Longrightarrow> idleCycle s = Num (real c) \<Longrightarrow>
   intervalTick s = s\<lparr>idleCycle := Num (real ((c + 1) mod 3))\<rparr>"
  using js_rem_nat [of 3 "c + 1"]
  by (simp add: intervalTick_def add.commute del: js_rem.simps)

lemma intervalTick_funpow:
  assumes "idleMode s" and "idleCycle s = Num (real c)" and "c < 3"
  shows "(intervalTick ^^ k) s = s\<lparr>idleCycle := Num (real ((c + k) mod 3))\<rparr>"
proof (induction k)
  case 0
  from assms show ?case by simp
next
  case (Suc k)
  let ?s' = "s\<lparr>idleCycle := Num (real ((c + k) mod 3))\<rparr>"
  have "idleMode ?s'" and "idleCycle ?s' = Num (real ((c + k) mod 3))"
    using assms by simp_all
  then have "intervalTick ?s' = ?s'\<lparr>idleCycle := Num (real (((c + k) mod 3 + 1) mod 3))\<rparr>"
    by (rule intervalTick_idle)
  moreover have "((c + k) mod 3 + 1) mod 3 = (c + Suc k) mod 3"
    by (simp add: mod_Suc_eq)
  ultimately show ?case
    using Suc by simp
qed

lemma getDisplayContent_idle:
  assumes "idleMode s"
    and "\<not> (truthy (activeControl props) \<and> truthy (controlValue props))"
    and "disciplineValues props = Some dv"
    and "idleCycle s = Num (real c)" and "c < 3"
  shows "getDisplayContent props s =
     Inr \<lparr>line1 = [''ARCH'', ''PROD'', ''SOFT''] ! c,
          line2 = js_toString (Math_round
                    ([architecture dv, productDesign dv, software dv] ! c)) @ ''%''\<rparr>"
proof -
  from \<open>c < 3\<close> consider "c = 0" | "c = 1" | "c = 2"
    by linarith
  then show ?thesis
    using assms by cases (auto simp: getDisplayContent_def)
qed

text \<open>
  C9: in idle mode with no control shown, the display shows the name and the rounded
  percentage of the discipline selected by the cycle index, and each tick of the interval
  increments that index modulo 3: after \<open>k\<close> ticks from index \<open>c\<close> the display shows the
  discipline \<open>(c + k) mod 3\<close> of ARCH, PROD, SOFT, for every \<open>k\<close>.
\<close>

theorem idle_cycle:
  assumes "idleMode s"
    and "\<not> (truthy (activeControl props) \<and> truthy (controlValue props))"
    and "disciplineValues props = Some dv"
    and "idleCycle s = Num (real c)" and "c < 3"
  shows "idleCycle (intervalTick s) = Num (real ((c + 1) mod 3)) \<and>
     getDisplayContent props ((intervalTick ^^ k) s) =
       Inr \<lparr>line1 = [''ARCH'', ''PROD'', ''SOFT''] ! ((c + k) mod 3),
            line2 = js_toString (Math_round
                      ([architecture dv, productDesign dv, software dv] ! ((c + k) mod 3)))
                    @ ''%''\<rparr>"
proof -
  have t: "(intervalTick ^^ k) s = s\<lparr>idleCycle := Num (real ((c + k) mod 3))\<rparr>"
    using assms(1,4,5) by (rule intervalTick_funpow)
  have "getDisplayContent props (s\<lparr>idleCycle := Num (real ((c + k) mod 3))\<rparr>) =
       Inr \<lparr>line1 = [''ARCH'', ''PROD'', ''SOFT''] ! ((c + k) mod 3),
            line2 = js_toString (Math_round
                      ([architecture dv, productDesign dv, software dv] ! ((c + k) mod 3)))
                    @ ''%''\<rparr>"
    using assms(1,2,3) by (intro getDisplayContent_idle) simp_all
  moreover have "idleCycle (intervalTick s) = Num (real ((c + 1) mod 3))"
    using intervalTick_idle [OF assms(1,4)] by simp
  ultimately show ?thesis
    using t by simp
qed

theorem idle_cycle_witness:
  "idleMode (idleTimeout initialDisplay) \<and>
   \<not> (truthy (activeControl idleProps) \<and> truthy (controlValue idleProps)) \<and>
   disciplineValues idleProps =
     Some \<lparr>architecture = Num 50, productDesign = Num 20.5, software = Num 7\<rparr> \<and>
   idleCycle (idleTimeout initialDisplay) = Num (real 0) \<and>
   map (\<lambda>k. getDisplayContent idleProps ((intervalTick ^^ k) (idleTimeout initialDisplay)))
     [0, 1, 2, 3] =
   map Inr [\<lparr>line1 = ''ARCH'', line2 = ''50%''\<rparr>, \<lparr>line1 = ''PROD'', line2 = ''21%''\<rparr>,
            \<lparr>line1 = ''SOFT'', line2 = ''7%''\<rparr>, \<lparr>line1 = ''ARCH'', line2 = ''50%''\<rparr>]"
  using
    idle_cycle [of "idleTimeout initialDisplay" idleProps
      "\<lparr>architecture = Num 50, productDesign = Num 20.5, software = Num 7\<rparr>" 0 0]
    idle_cycle [of "idleTimeout initialDisplay" idleProps
      "\<lparr>architecture = Num 50, productDesign = Num 20.5, software = Num 7\<rparr>" 0 1]
    idle_cycle [of "idleTimeout initialDisplay" idleProps
      "\<lparr>architecture = Num 50, productDesign = Num 20.5, software = Num 7\<rparr>" 0 2]
    idle_cycle [of "idleTimeout initialDisplay" idleProps
      "\<lparr>architecture = Num 50, productDesign = Num 20.5, software = Num 7\<rparr>" 0 3]
  by (simp add: idleProps_def idleTimeout_def initialDisplay_def truthy_def int_toString_def
      digit_char_def)

end
